theory Spec2Isabelle
  imports Complex_Main "HOL-Library.Sublist"
begin

section \<open>Data model\<close>

text \<open>
  The backend keeps two collections in a document store: users and tasks. A document
  identifier (an ObjectId) is modelled as a string, an instant (a Date) as the number of
  milliseconds since the epoch. The fields are those of the Data Models section of the
  backend README, with the two timestamps that the object-document mapper maintains by
  itself. Every string stands for a well-formed identifier: a path parameter that does
  not parse as an ObjectId makes the mapper throw before the store is asked, and such
  requests are outside the model.
\<close>

type_synonym object_id = string
type_synonym instant = int

record user_doc =
  user_id :: object_id
  name :: string
  email :: string
  password :: string
  avatar :: "string option"
  role :: string
  isActive :: bool
  lastLogin :: "instant option"
  user_createdAt :: instant
  user_updatedAt :: instant

record task =
  task_id :: object_id
  title :: string
  description :: "string option"
  status :: string
  priority :: string
  category :: "string option"
  dueDate :: "instant option"
  completedAt :: "instant option"
  tags :: "string list"
  user :: object_id
  isArchived :: bool
  createdAt :: instant
  updatedAt :: instant

record db =
  users :: "user_doc list"
  tasks :: "task list"

section \<open>The document store\<close>

text \<open>
  A filter document is the list of its keys, which the store combines by conjunction.
  Each constructor is one of the key/condition shapes that the route handlers write.
  A compiled regular expression is the test it performs on a string.
\<close>

type_synonym regex = "string \<Rightarrow> bool"

datatype cond =
    IdEq object_id
  | IdIn "object_id list"
  | UserEq object_id
  | ArchivedEq bool
  | ArchivedIn "bool list"
  | StatusEq string
  | StatusNin "string list"
  | PriorityEq string
  | CategoryRe regex
  | TitleRe regex
  | DescriptionRe regex
  | TagsInRe "regex list"
  | DueDateLt instant
  | DueDateRange instant instant
  | Or "cond list"

text \<open>
  An absent field matches neither a regular expression nor a date comparison.
  \<open>DueDateRange a b\<close> is \<open>{ $gte: a, $lt: b }\<close>.
\<close>

fun sat :: "cond \<Rightarrow> task \<Rightarrow> bool" where
  "sat (IdEq i) t = (task_id t = i)"
| "sat (IdIn is) t = (task_id t \<in> set is)"
| "sat (UserEq u) t = (user t = u)"
| "sat (ArchivedEq b) t = (isArchived t = b)"
| "sat (ArchivedIn bs) t = (isArchived t \<in> set bs)"
| "sat (StatusEq s) t = (status t = s)"
| "sat (StatusNin ss) t = (status t \<notin> set ss)"
| "sat (PriorityEq p) t = (priority t = p)"
| "sat (CategoryRe r) t = (case category t of None \<Rightarrow> False | Some c \<Rightarrow> r c)"
| "sat (TitleRe r) t = r (title t)"
| "sat (DescriptionRe r) t = (case description t of None \<Rightarrow> False | Some d \<Rightarrow> r d)"
| "sat (TagsInRe rs) t = list_ex (\<lambda>g. list_ex (\<lambda>r. r g) rs) (tags t)"
| "sat (DueDateLt b) t = (case dueDate t of None \<Rightarrow> False | Some d \<Rightarrow> d < b)"
| "sat (DueDateRange a b) t = (case dueDate t of None \<Rightarrow> False | Some d \<Rightarrow> a \<le> d \<and> d < b)"
| "sat (Or cs) t = list_ex (\<lambda>c. sat c t) cs"

definition matches :: "cond list \<Rightarrow> task \<Rightarrow> bool" where
  "matches query t = list_all (\<lambda>c. sat c t) query"

definition find_docs :: "cond list \<Rightarrow> task list \<Rightarrow> task list" where
  "find_docs query coll = filter (matches query) coll"

definition findOne :: "cond list \<Rightarrow> task list \<Rightarrow> task option" where
  "findOne query coll = List.find (matches query) coll"

definition countDocuments :: "cond list \<Rightarrow> task list \<Rightarrow> nat" where
  "countDocuments query coll = length (find_docs query coll)"

datatype error = SyntaxError | MongoServerError | ValidationError | CastError

text \<open>
  The comparison order of the store on the values of a field is a parameter \<open>key\<close>: it
  sends a field name and a document to the rank of the document's value of that field.
\<close>

definition sort_docs :: "(string \<Rightarrow> task \<Rightarrow> 'k::linorder) \<Rightarrow> string \<Rightarrow> int \<Rightarrow> task list \<Rightarrow> task list" where
  "sort_docs key field dir ts =
     (if dir = 1 then sort_key (key field) ts else rev (sort_key (key field) ts))"

text \<open>
  \<open>populate('user', 'name email')\<close> joins the name and the email of the owner to a task;
  the owner reference of the task itself stays what it is.
\<close>

record task_view =
  doc :: task
  owner_info :: "(string \<times> string) option"

definition populate :: "user_doc list \<Rightarrow> task \<Rightarrow> task_view" where
  "populate us t =
     \<lparr>doc = t,
      owner_info = map_option (\<lambda>u. (name u, email u)) (List.find (\<lambda>u. user_id u = user t) us)\<rparr>"


section \<open>Numbers of the runtime\<close>

text \<open>
  A number of the runtime is a double: a finite value, the negative zero, NaN or an
  infinity. The model computes with the integers among them, rounding as the runtime
  does; what the runtime does with any other number, and with a string that is not one
  of the literals below, is left to the parameters of \<open>js_runtime\<close>.
\<close>

datatype jsnum = Fin rat | NegZero | NaN | PInf | NInf

record js_runtime =
  Number_other :: "string \<Rightarrow> jsnum"
  parseInt_other :: "string \<Rightarrow> jsnum"
  minus_other :: "jsnum \<Rightarrow> jsnum \<Rightarrow> jsnum"
  times_other :: "jsnum \<Rightarrow> jsnum \<Rightarrow> jsnum"
  ceil_divide_other :: "nat \<Rightarrow> jsnum \<Rightarrow> jsnum"
  skip_other :: "jsnum \<Rightarrow> error + nat"
  limit_other :: "jsnum \<Rightarrow> error + nat"

definition is_int :: "rat \<Rightarrow> bool" where
  "is_int x = (of_int \<lfloor>x\<rfloor> = x)"

fun bitlen :: "nat \<Rightarrow> nat" where
  "bitlen n = (if n = 0 then 0 else Suc (bitlen (n div 2)))"

declare bitlen.simps [simp del]

text \<open>
  The double nearest to a natural number, ties to the even significand: the numbers up
  to \<open>2^53\<close> are doubles themselves, a larger one keeps its 53 leading bits, and the
  result is the infinity from \<open>2^1024\<close> on.
\<close>

definition fl_nat :: "nat \<Rightarrow> jsnum" where
  "fl_nat m =
     (if m \<le> 2 ^ 53 then Fin (of_nat m)
      else
        (let e = bitlen m - 53;
             q = m div 2 ^ e;
             r = m mod 2 ^ e;
             q = (if 2 ^ e < 2 * r \<or> (2 * r = 2 ^ e \<and> odd q) then q + 1 else q)
         in if 2 ^ 1024 \<le> q * 2 ^ e then PInf else Fin (of_nat (q * 2 ^ e))))"

definition fl_int :: "int \<Rightarrow> jsnum" where
  "fl_int n =
     (if 0 \<le> n then fl_nat (nat n)
      else (case fl_nat (nat (- n)) of Fin x \<Rightarrow> Fin (- x) | _ \<Rightarrow> NInf))"

text \<open>
  Subtraction and multiplication of two integers: the exact result, rounded. A product
  that is zero with a negative factor is the negative zero.
\<close>

definition js_minus :: "js_runtime \<Rightarrow> jsnum \<Rightarrow> jsnum \<Rightarrow> jsnum" where
  "js_minus js x y =
     (case (x, y) of
        (Fin a, Fin b) \<Rightarrow>
          if is_int a \<and> is_int b then fl_int (\<lfloor>a\<rfloor> - \<lfloor>b\<rfloor>) else minus_other js x y
      | _ \<Rightarrow> minus_other js x y)"

definition js_times :: "js_runtime \<Rightarrow> jsnum \<Rightarrow> jsnum \<Rightarrow> jsnum" where
  "js_times js x y =
     (case (x, y) of
        (Fin a, Fin b) \<Rightarrow>
          if is_int a \<and> is_int b then
            (if a * b = 0 \<and> (a < 0 \<or> b < 0) then NegZero else fl_int (\<lfloor>a\<rfloor> * \<lfloor>b\<rfloor>))
          else times_other js x y
      | _ \<Rightarrow> times_other js x y)"

text \<open>
  \<open>Math.ceil(n / y)\<close> for a count \<open>n\<close>. For \<open>n\<close> and a positive integer \<open>y\<close> up to
  \<open>2^53\<close> the rounded quotient lies strictly between the same two integers as the exact
  one (the doubles in that range are closer to each other than \<open>1 / y\<close>), so the result
  is the ceiling of the exact quotient.
\<close>

definition js_ceil_divide :: "js_runtime \<Rightarrow> nat \<Rightarrow> jsnum \<Rightarrow> jsnum" where
  "js_ceil_divide js n y =
     (case y of
        Fin b \<Rightarrow>
          if is_int b \<and> 1 \<le> b \<and> b \<le> 2 ^ 53 \<and> n \<le> 2 ^ 53
          then Fin (of_int (- ((- int n) div \<lfloor>b\<rfloor>)))
          else ceil_divide_other js n y
      | _ \<Rightarrow> ceil_divide_other js n y)"

text \<open>
  The numeric literals that the model reads: a string of at most twenty decimal digits,
  and such a string followed by an exponent of at most three digits. \<open>Number\<close> reads
  the whole string; \<open>parseInt\<close> reads the digits that a string starts with and ignores
  what follows, unless the string starts with the hexadecimal prefix.
\<close>

definition digit_value :: "char \<Rightarrow> nat option" where
  "digit_value c = map_of (zip ''0123456789'' [0, 1, 2, 3, 4, 5, 6, 7, 8, 9]) c"

definition is_digit :: "char \<Rightarrow> bool" where
  "is_digit c = (digit_value c \<noteq> None)"

definition decimal_of :: "string \<Rightarrow> nat" where
  "decimal_of s = foldl (\<lambda>a c. 10 * a + (case digit_value c of None \<Rightarrow> 0 | Some v \<Rightarrow> v)) 0 s"

definition decimal :: "string \<Rightarrow> nat option" where
  "decimal s =
     (if s \<noteq> [] \<and> list_all is_digit s \<and> length s \<le> 20 then Some (decimal_of s) else None)"

definition Number_literal :: "string \<Rightarrow> jsnum option" where
  "Number_literal s =
     (let m = takeWhile is_digit s; rest = dropWhile is_digit s
      in case decimal m of
           None \<Rightarrow> None
         | Some d \<Rightarrow>
             (case rest of
                [] \<Rightarrow> Some (fl_nat d)
              | c # k \<Rightarrow>
                  if (c = CHR ''e'' \<or> c = CHR ''E'') \<and> k \<noteq> [] \<and> list_all is_digit k \<and> length k \<le> 3
                  then Some (fl_nat (d * 10 ^ decimal_of k))
                  else None))"

definition Number :: "js_runtime \<Rightarrow> string \<Rightarrow> jsnum" where
  "Number js s = (case Number_literal s of None \<Rightarrow> Number_other js s | Some v \<Rightarrow> v)"

definition parseInt :: "js_runtime \<Rightarrow> string \<Rightarrow> jsnum" where
  "parseInt js s =
     (if take 2 s = ''0x'' \<or> take 2 s = ''0X'' then parseInt_other js s
      else case decimal (takeWhile is_digit s) of
             None \<Rightarrow> parseInt_other js s
           | Some d \<Rightarrow> fl_nat d)"

text \<open>
  The cursor skips and limits by a natural number below \<open>2^63\<close> (the store reads a
  64-bit integer); a limit of zero is no limit. What the mapper and the store do with
  another number (they may refuse it) is a parameter.
\<close>

definition cursor_skip :: "js_runtime \<Rightarrow> jsnum \<Rightarrow> task list \<Rightarrow> error + task list" where
  "cursor_skip js x ts =
     (case (case x of
              Fin a \<Rightarrow> if is_int a \<and> 0 \<le> a \<and> a < 2 ^ 63 then Inr (nat \<lfloor>a\<rfloor>) else skip_other js x
            | _ \<Rightarrow> skip_other js x) of
        Inl e \<Rightarrow> Inl e
      | Inr k \<Rightarrow> Inr (drop k ts))"

definition cursor_limit :: "js_runtime \<Rightarrow> jsnum \<Rightarrow> task list \<Rightarrow> error + task list" where
  "cursor_limit js x ts =
     (case (case x of
              Fin a \<Rightarrow> if is_int a \<and> 0 \<le> a \<and> a < 2 ^ 63 then Inr (nat \<lfloor>a\<rfloor>) else limit_other js x
            | _ \<Rightarrow> limit_other js x) of
        Inl e \<Rightarrow> Inl e
      | Inr k \<Rightarrow> Inr (if k = 0 then ts else take k ts))"

section \<open>Requests and responses\<close>

datatype jsvalue = JNull | JBool bool | JNum int | JStr string | JArr "string list"

text \<open>
  The query string of the list request. A parameter that is absent is \<open>None\<close>. The page
  and the limit are the strings of the query string: the handler reads each of them
  once as a number and once with \<open>parseInt\<close>. The includeArchived parameter keeps its
  JavaScript value, since the handler compares it with strict equality.
\<close>

record list_request =
  q_status :: "string option"
  q_priority :: "string option"
  q_category :: "string option"
  q_search :: "string option"
  q_sortBy :: "string option"
  q_sortOrder :: "string option"
  q_page :: "string option"
  q_limit :: "string option"
  q_includeArchived :: "jsvalue option"

record pagination =
  current :: jsnum
  total :: jsnum
  count :: nat
  totalRecords :: nat

text \<open>A count that the result of the store does not hold is \<open>None\<close> (undefined).\<close>

datatype data =
    NoData
  | TaskPage "task_view list" pagination
  | TaskView task_view
  | TaskDoc task
  | Counts "nat option" "nat option"
  | Overview "(string \<times> nat) list" nat nat

record response =
  code :: nat
  success :: bool
  message :: "string option"
  payload :: data

text \<open>
  A handler either sends a response or passes an exception on with \<open>next(error)\<close>.
  The handlers run behind the authentication middleware; their argument \<open>caller\<close> is
  \<open>req.user.id\<close>. A handler that writes takes the instant \<open>now\<close> of the write.
\<close>

datatype outcome = Send response | Next error

section \<open>GET /api/tasks\<close>

definition new_RegExp :: "(string \<Rightarrow> regex option) \<Rightarrow> string \<Rightarrow> error + regex" where
  "new_RegExp RegExp_i s = (case RegExp_i s of None \<Rightarrow> Inl SyntaxError | Some r \<Rightarrow> Inr r)"

text \<open>
  The regular-expression engine of the runtime is the parameter \<open>RegExp_i\<close>: it compiles
  a pattern with the flag \<open>i\<close>, and returns \<open>None\<close> where the constructor throws.
\<close>

definition build_query :: "(string \<Rightarrow> regex option) \<Rightarrow> object_id \<Rightarrow> list_request \<Rightarrow> error + cond list" where
  "build_query RegExp_i caller q =
     (let includeArchived = (case q_includeArchived q of None \<Rightarrow> JStr ''false'' | Some v \<Rightarrow> v);
          query = [UserEq caller,
                   if includeArchived = JStr ''true'' then ArchivedIn [True, False]
                   else ArchivedEq False];
          query = (case q_status q of None \<Rightarrow> query
                   | Some s \<Rightarrow> if s \<noteq> [] then query @ [StatusEq s] else query);
          query = (case q_priority q of None \<Rightarrow> query
                   | Some p \<Rightarrow> if p \<noteq> [] then query @ [PriorityEq p] else query)
      in case (case q_category q of None \<Rightarrow> Inr query
               | Some c \<Rightarrow>
                   if c \<noteq> [] then
                     (case new_RegExp RegExp_i c of Inl e \<Rightarrow> Inl e
                      | Inr r \<Rightarrow> Inr (query @ [CategoryRe r]))
                   else Inr query) of
           Inl e \<Rightarrow> Inl e
         | Inr query \<Rightarrow>
             (case q_search q of None \<Rightarrow> Inr query
              | Some s \<Rightarrow>
                  if s \<noteq> [] then
                    (case new_RegExp RegExp_i s of Inl e \<Rightarrow> Inl e
                     | Inr r \<Rightarrow>
                         Inr (query @ [Or [TitleRe r, DescriptionRe r, TagsInRe [r]]]))
                  else Inr query))"

text \<open>
  The keys that each parameter adds to the filter document, one definition a parameter;
  \<open>build_query\<close> is their concatenation (lemma \<open>build_query_keys\<close>).
\<close>

definition base_keys :: "object_id \<Rightarrow> list_request \<Rightarrow> cond list" where
  "base_keys caller q =
     [UserEq caller,
      if q_includeArchived q = Some (JStr ''true'') then ArchivedIn [True, False]
      else ArchivedEq False]"

definition status_keys :: "list_request \<Rightarrow> cond list" where
  "status_keys q = (case q_status q of None \<Rightarrow> [] | Some s \<Rightarrow> if s \<noteq> [] then [StatusEq s] else [])"

definition priority_keys :: "list_request \<Rightarrow> cond list" where
  "priority_keys q =
     (case q_priority q of None \<Rightarrow> [] | Some p \<Rightarrow> if p \<noteq> [] then [PriorityEq p] else [])"

definition category_keys :: "(string \<Rightarrow> regex option) \<Rightarrow> list_request \<Rightarrow> error + cond list" where
  "category_keys R q =
     (case q_category q of None \<Rightarrow> Inr []
      | Some c \<Rightarrow>
          if c \<noteq> [] then (case R c of None \<Rightarrow> Inl SyntaxError | Some r \<Rightarrow> Inr [CategoryRe r])
          else Inr [])"

definition search_keys :: "(string \<Rightarrow> regex option) \<Rightarrow> list_request \<Rightarrow> error + cond list" where
  "search_keys R q =
     (case q_search q of None \<Rightarrow> Inr []
      | Some s \<Rightarrow>
          if s \<noteq> [] then
            (case R s of None \<Rightarrow> Inl SyntaxError
             | Some r \<Rightarrow> Inr [Or [TitleRe r, DescriptionRe r, TagsInRe [r]]])
          else Inr [])"

text \<open>
  A parameter read as a number (in \<open>page - 1\<close>, \<open>* limit\<close> and \<open>total / limit\<close>) and
  read with \<open>parseInt\<close>; the default of an absent parameter is a number already.
\<close>

definition ToNumber :: "js_runtime \<Rightarrow> nat \<Rightarrow> string option \<Rightarrow> jsnum" where
  "ToNumber js dflt v = (case v of None \<Rightarrow> Fin (of_nat dflt) | Some s \<Rightarrow> Number js s)"

definition parseInt_of :: "js_runtime \<Rightarrow> nat \<Rightarrow> string option \<Rightarrow> jsnum" where
  "parseInt_of js dflt v = (case v of None \<Rightarrow> Fin (of_nat dflt) | Some s \<Rightarrow> parseInt js s)"

definition skip_value :: "js_runtime \<Rightarrow> list_request \<Rightarrow> jsnum" where
  "skip_value js q =
     js_times js (js_minus js (ToNumber js 1 (q_page q)) (Fin 1)) (ToNumber js 10 (q_limit q))"

definition list_tasks ::
  "(string \<Rightarrow> regex option) \<Rightarrow> (string \<Rightarrow> task \<Rightarrow> 'k::linorder) \<Rightarrow> js_runtime \<Rightarrow> db \<Rightarrow> object_id \<Rightarrow>
   list_request \<Rightarrow> outcome" where
  "list_tasks RegExp_i key js d caller q =
     (let sortBy = (case q_sortBy q of None \<Rightarrow> ''createdAt'' | Some f \<Rightarrow> f);
          sortOrder = (case q_sortOrder q of None \<Rightarrow> ''desc'' | Some v \<Rightarrow> v)
      in case build_query RegExp_i caller q of
           Inl e \<Rightarrow> Next e
         | Inr query \<Rightarrow>
             (let dir = (if sortOrder = ''asc'' then 1 else - 1);
                  skip = skip_value js q
              in case cursor_skip js skip (sort_docs key sortBy dir (find_docs query (tasks d))) of
                   Inl e \<Rightarrow> Next e
                 | Inr rest \<Rightarrow>
                     (case cursor_limit js (parseInt_of js 10 (q_limit q)) rest of
                        Inl e \<Rightarrow> Next e
                      | Inr selected \<Rightarrow>
                          (let found = map (populate (users d)) selected;
                               n = countDocuments query (tasks d)
                           in Send \<lparr>code = 200, success = True, message = None,
                                    payload = TaskPage found
                                      \<lparr>current = parseInt_of js 1 (q_page q),
                                       total = js_ceil_divide js n (ToNumber js 10 (q_limit q)),
                                       count = length found, totalRecords = n\<rparr>\<rparr>))))"

section \<open>Single-record operations\<close>

definition not_found :: response where
  "not_found = \<lparr>code = 404, success = False, message = Some ''Task not found'', payload = NoData\<rparr>"

text \<open>Operations of the store on the first document that satisfies a predicate.\<close>

fun update_one :: "('a \<Rightarrow> bool) \<Rightarrow> ('a \<Rightarrow> 'a) \<Rightarrow> 'a list \<Rightarrow> 'a list" where
  "update_one P f [] = []"
| "update_one P f (x # xs) = (if P x then f x # xs else x # update_one P f xs)"

fun delete_one :: "('a \<Rightarrow> bool) \<Rightarrow> 'a list \<Rightarrow> 'a list" where
  "delete_one P [] = []"
| "delete_one P (x # xs) = (if P x then xs else x # delete_one P xs)"

definition get_task :: "db \<Rightarrow> object_id \<Rightarrow> object_id \<Rightarrow> outcome" where
  "get_task d caller i =
     (case findOne [IdEq i, UserEq caller] (tasks d) of
        None \<Rightarrow> Send not_found
      | Some t \<Rightarrow>
          Send \<lparr>code = 200, success = True, message = None,
                payload = TaskView (populate (users d) t)\<rparr>)"

text \<open>
  An update document, after the casting of its values to the types of the schema. A key
  of the document is a path of the schema, a key that the schema does not know (strict
  mode drops it) or the operator \<open>$set\<close> with the paths it assigns. The other update
  operators and assignments to the two timestamps are not modelled.
\<close>

datatype task_field =
    Title string
  | Description string
  | Status string
  | Priority string
  | Category string
  | DueDate "instant option"
  | CompletedAt "instant option"
  | Tags "string list"
  | User object_id
  | IsArchived bool
  | Unknown string

datatype update_entry = Plain task_field | SetOp "task_field list"

fun path :: "task_field \<Rightarrow> string" where
  "path (Title _) = ''title''"
| "path (Description _) = ''description''"
| "path (Status _) = ''status''"
| "path (Priority _) = ''priority''"
| "path (Category _) = ''category''"
| "path (DueDate _) = ''dueDate''"
| "path (CompletedAt _) = ''completedAt''"
| "path (Tags _) = ''tags''"
| "path (User _) = ''user''"
| "path (IsArchived _) = ''isArchived''"
| "path (Unknown k) = k"

fun key_of :: "update_entry \<Rightarrow> string" where
  "key_of (Plain f) = path f"
| "key_of (SetOp _) = ''$set''"

text \<open>\<open>delete obj.k\<close> removes the own key \<open>k\<close> of the object and nothing else.\<close>

definition delete_key :: "string \<Rightarrow> update_entry list \<Rightarrow> update_entry list" where
  "delete_key k obj = filter (\<lambda>e. key_of e \<noteq> k) obj"

fun set_field :: "task_field \<Rightarrow> task \<Rightarrow> task" where
  "set_field (Title s) t = t\<lparr>title := s\<rparr>"
| "set_field (Description s) t = t\<lparr>description := Some s\<rparr>"
| "set_field (Status s) t = t\<lparr>status := s\<rparr>"
| "set_field (Priority s) t = t\<lparr>priority := s\<rparr>"
| "set_field (Category s) t = t\<lparr>category := Some s\<rparr>"
| "set_field (DueDate x) t = t\<lparr>dueDate := x\<rparr>"
| "set_field (CompletedAt x) t = t\<lparr>completedAt := x\<rparr>"
| "set_field (Tags gs) t = t\<lparr>tags := gs\<rparr>"
| "set_field (User u) t = t\<lparr>user := u\<rparr>"
| "set_field (IsArchived b) t = t\<lparr>isArchived := b\<rparr>"
| "set_field (Unknown _) t = t"

text \<open>
  The mapper moves the top-level keys that are not operators into \<open>$set\<close>, where they
  replace an assignment to the same path, and adds the update timestamp. The paths are
  assigned in this order: those of \<open>$set\<close>, the top-level ones, the timestamp.
\<close>

definition operator_fields :: "update_entry list \<Rightarrow> task_field list" where
  "operator_fields upd = concat (map (\<lambda>e. case e of SetOp fs \<Rightarrow> fs | Plain f \<Rightarrow> []) upd)"

definition top_level_fields :: "update_entry list \<Rightarrow> task_field list" where
  "top_level_fields upd = concat (map (\<lambda>e. case e of SetOp fs \<Rightarrow> [] | Plain f \<Rightarrow> [f]) upd)"

definition apply_update :: "update_entry list \<Rightarrow> instant \<Rightarrow> task \<Rightarrow> task" where
  "apply_update upd now t =
     (fold set_field (operator_fields upd @ top_level_fields upd) t)\<lparr>updatedAt := now\<rparr>"

text \<open>
  The validators of the schema that \<open>runValidators\<close> runs on the assigned paths, as the
  README gives them: the title is required, the status and the priority are enumerations.
\<close>

fun schema_valid :: "task_field \<Rightarrow> bool" where
  "schema_valid (Title s) = (s \<noteq> [])"
| "schema_valid (Status s) = (s \<in> set [''pending'', ''in-progress'', ''completed'', ''cancelled''])"
| "schema_valid (Priority s) = (s \<in> set [''low'', ''medium'', ''high'', ''urgent''])"
| "schema_valid _ = True"

fun entry_valid :: "update_entry \<Rightarrow> bool" where
  "entry_valid (Plain f) = schema_valid f"
| "entry_valid (SetOp fs) = list_all schema_valid fs"

text \<open>
  The validators on a whole document, which \<open>save\<close> runs on a document loaded from
  the store. The owner is required too; a task of the model always has one.
\<close>

definition doc_valid :: "task \<Rightarrow> bool" where
  "doc_valid t = list_all schema_valid [Title (title t), Status (status t), Priority (priority t)]"

text \<open>
  \<open>findByIdAndUpdate(id, update, { new: true, runValidators })\<close> looks the document up
  by its identifier alone and returns the updated document, or null when there is none.
  With an update document that has no key it writes nothing and returns the document
  as it is.
\<close>

definition findByIdAndUpdate ::
  "object_id \<Rightarrow> update_entry list \<Rightarrow> bool \<Rightarrow> instant \<Rightarrow> task list \<Rightarrow> error + (task option \<times> task list)" where
  "findByIdAndUpdate i upd runValidators now coll =
     (if upd = [] then Inr (List.find (\<lambda>t. task_id t = i) coll, coll)
      else if runValidators \<and> \<not> list_all entry_valid upd then Inl ValidationError
      else Inr (map_option (apply_update upd now) (List.find (\<lambda>t. task_id t = i) coll),
                update_one (\<lambda>t. task_id t = i) (apply_update upd now) coll))"

definition put_task ::
  "db \<Rightarrow> object_id \<Rightarrow> object_id \<Rightarrow> update_entry list \<Rightarrow> instant \<Rightarrow> outcome \<times> db" where
  "put_task d caller i body now =
     (case findOne [IdEq i, UserEq caller] (tasks d) of
        None \<Rightarrow> (Send not_found, d)
      | Some _ \<Rightarrow>
          (let body = delete_key ''user'' body
           in case findByIdAndUpdate i body True now (tasks d) of
                Inl e \<Rightarrow> (Next e, d)
              | Inr (res, coll) \<Rightarrow>
                  (Send \<lparr>code = 200, success = True,
                         message = Some ''Task updated successfully'',
                         payload = (case res of None \<Rightarrow> NoData
                                    | Some t \<Rightarrow> TaskView (populate (users d) t))\<rparr>,
                   d\<lparr>tasks := coll\<rparr>)))"

definition delete_task :: "db \<Rightarrow> object_id \<Rightarrow> object_id \<Rightarrow> outcome \<times> db" where
  "delete_task d caller i =
     (case findOne [IdEq i, UserEq caller] (tasks d) of
        None \<Rightarrow> (Send not_found, d)
      | Some _ \<Rightarrow>
          (Send \<lparr>code = 200, success = True, message = Some ''Task deleted successfully'',
                 payload = NoData\<rparr>,
           d\<lparr>tasks := delete_one (\<lambda>t. task_id t = i) (tasks d)\<rparr>))"

text \<open>
  \<open>task.save()\<close> validates the document, which throws when a validator fails, and
  writes it back under its identifier with the update timestamp; it returns the
  document as written.
\<close>

definition save :: "task \<Rightarrow> instant \<Rightarrow> task list \<Rightarrow> error + (task \<times> task list)" where
  "save t now coll =
     (if doc_valid t
      then Inr (t\<lparr>updatedAt := now\<rparr>,
                update_one (\<lambda>x. task_id x = task_id t) (\<lambda>_. t\<lparr>updatedAt := now\<rparr>) coll)
      else Inl ValidationError)"

definition patch_archive :: "db \<Rightarrow> object_id \<Rightarrow> object_id \<Rightarrow> instant \<Rightarrow> outcome \<times> db" where
  "patch_archive d caller i now =
     (case findOne [IdEq i, UserEq caller] (tasks d) of
        None \<Rightarrow> (Send not_found, d)
      | Some t \<Rightarrow>
          (case save (t\<lparr>isArchived := \<not> isArchived t\<rparr>) now (tasks d) of
             Inl e \<Rightarrow> (Next e, d)
           | Inr (t, coll) \<Rightarrow>
               (Send \<lparr>code = 200, success = True,
                      message = Some (''Task '' @ (if isArchived t then ''archived'' else ''unarchived'')
                                      @ '' successfully''),
                      payload = TaskDoc t\<rparr>,
                d\<lparr>tasks := coll\<rparr>)))"

section \<open>GET /api/tasks/stats/overview\<close>

text \<open>
  The static \<open>Task.getTaskStats\<close> belongs to the model file and is a parameter here, and
  so is the local calendar: \<open>Date_local today k\<close> is the instant
  \<open>new Date(today.getFullYear(), today.getMonth(), today.getDate() + k)\<close>. The handler
  reads the clock twice, once for the overdue count (\<open>now\<close>) and once for the day
  (\<open>today\<close>).
\<close>

definition get_stats_overview ::
  "(task list \<Rightarrow> object_id \<Rightarrow> (string \<times> nat) list) \<Rightarrow> (instant \<Rightarrow> int \<Rightarrow> instant) \<Rightarrow>
   db \<Rightarrow> object_id \<Rightarrow> instant \<Rightarrow> instant \<Rightarrow> outcome" where
  "get_stats_overview getTaskStats Date_local d caller now today =
     (let stats = getTaskStats (tasks d) caller;
          overdueCount = countDocuments
            [UserEq caller, DueDateLt now, StatusNin [''completed'', ''cancelled''],
             ArchivedEq False] (tasks d);
          todayStart = Date_local today 0;
          todayEnd = Date_local today 1;
          dueTodayCount = countDocuments
            [UserEq caller, DueDateRange todayStart todayEnd,
             StatusNin [''completed'', ''cancelled''], ArchivedEq False] (tasks d)
      in Send \<lparr>code = 200, success = True, message = None,
               payload = Overview stats overdueCount dueTodayCount\<rparr>)"

section \<open>PATCH /api/tasks/bulk\<close>

record bulk_body =
  taskIds :: "jsvalue option"
  updates :: "update_entry list option"

fun falsy :: "jsvalue option \<Rightarrow> bool" where
  "falsy None = True"
| "falsy (Some JNull) = True"
| "falsy (Some (JBool b)) = (\<not> b)"
| "falsy (Some (JNum n)) = (n = 0)"
| "falsy (Some (JStr s)) = (s = [])"
| "falsy (Some (JArr _)) = False"

fun isArray :: "jsvalue option \<Rightarrow> bool" where
  "isArray (Some (JArr _)) = True"
| "isArray _ = False"

fun elements :: "jsvalue option \<Rightarrow> string list" where
  "elements (Some (JArr xs)) = xs"
| "elements _ = []"

text \<open>
  \<open>updateMany(filter, update)\<close> applies the update to every document that satisfies the
  filter, and reports how many documents satisfied it and how many of them changed.
  With an update document that has no key the mapper sends nothing to the store, and
  its result holds no counts.
\<close>

record update_result =
  matchedCount :: "nat option"
  modifiedCount :: "nat option"

definition updateMany ::
  "cond list \<Rightarrow> update_entry list \<Rightarrow> instant \<Rightarrow> task list \<Rightarrow> update_result \<times> task list" where
  "updateMany query upd now coll =
     (if upd = [] then (\<lparr>matchedCount = None, modifiedCount = None\<rparr>, coll)
      else
        (\<lparr>matchedCount = Some (length (filter (matches query) coll)),
          modifiedCount =
            Some (length (filter (\<lambda>t. matches query t \<and> apply_update upd now t \<noteq> t) coll))\<rparr>,
         map (\<lambda>t. if matches query t then apply_update upd now t else t) coll))"

definition digit :: "nat \<Rightarrow> char" where
  "digit n = ''0123456789'' ! n"

fun show_nat :: "nat \<Rightarrow> string" where
  "show_nat n = (if n < 10 then [digit n] else show_nat (n div 10) @ [digit (n mod 10)])"

text \<open>A template literal prints a count that is undefined as \<open>undefined\<close>.\<close>

definition show_count :: "nat option \<Rightarrow> string" where
  "show_count c = (case c of None \<Rightarrow> ''undefined'' | Some n \<Rightarrow> show_nat n)"

definition patch_bulk :: "db \<Rightarrow> object_id \<Rightarrow> bulk_body \<Rightarrow> instant \<Rightarrow> outcome \<times> db" where
  "patch_bulk d caller body now =
     (if falsy (taskIds body) \<or> \<not> isArray (taskIds body) \<or> length (elements (taskIds body)) = 0
      then (Send \<lparr>code = 400, success = False, message = Some ''Task IDs are required'',
                  payload = NoData\<rparr>, d)
      else case updates body of
             None \<Rightarrow>
               (Send \<lparr>code = 400, success = False, message = Some ''Updates are required'',
                      payload = NoData\<rparr>, d)
           | Some upd \<Rightarrow>
               if length (map key_of upd) = 0
               then (Send \<lparr>code = 400, success = False, message = Some ''Updates are required'',
                            payload = NoData\<rparr>, d)
               else
                 (let upd = delete_key ''user'' upd;
                      (result, coll) =
                        updateMany [IdIn (elements (taskIds body)), UserEq caller] upd now (tasks d)
                  in (Send \<lparr>code = 200, success = True,
                            message = Some (show_count (modifiedCount result)
                                            @ '' tasks updated successfully''),
                            payload = Counts (matchedCount result) (modifiedCount result)\<rparr>,
                      d\<lparr>tasks := coll\<rparr>)))"

section \<open>DELETE /api/users/account\<close>

text \<open>
  \<open>User.findByIdAndUpdate(id, { isActive: false })\<close>: the mapper adds the update
  timestamp to the assignment.
\<close>

definition delete_account :: "db \<Rightarrow> object_id \<Rightarrow> instant \<Rightarrow> outcome \<times> db" where
  "delete_account d caller now =
     (Send \<lparr>code = 200, success = True, message = Some ''Account deactivated successfully'',
            payload = NoData\<rparr>,
      d\<lparr>users := update_one (\<lambda>u. user_id u = caller)
                    (\<lambda>u. u\<lparr>isActive := False, user_updatedAt := now\<rparr>) (users d)\<rparr>)"

section \<open>The regular-expression engine\<close>

text \<open>
  The engine is modelled on the patterns made of ordinary characters, which match
  themselves up to the case folding \<open>cf\<close> of the engine, and of dots, which match any
  character but a line feed. A pattern is searched for anywhere in the string. What the
  engine does with a pattern that has another syntax character is the parameter
  \<open>other\<close>.
\<close>

definition syntax_character :: "char \<Rightarrow> bool" where
  "syntax_character c = (c \<in> set (''^$.*+?()[]{}|'' @ [CHR 0x5C]))"

datatype atom = Lit char | AnyChar

fun compile_rx :: "string \<Rightarrow> atom list option" where
  "compile_rx [] = Some []"
| "compile_rx (c # cs) =
     (if c = CHR ''.'' then map_option ((#) AnyChar) (compile_rx cs)
      else if syntax_character c then None
      else map_option ((#) (Lit c)) (compile_rx cs))"

fun atom_match :: "(char \<Rightarrow> char) \<Rightarrow> atom \<Rightarrow> char \<Rightarrow> bool" where
  "atom_match cf (Lit l) c = (cf c = cf l)"
| "atom_match cf AnyChar c = (c \<noteq> CHR 0x0A)"

fun match_here :: "(char \<Rightarrow> char) \<Rightarrow> atom list \<Rightarrow> string \<Rightarrow> bool" where
  "match_here cf [] x = True"
| "match_here cf (a # as) [] = False"
| "match_here cf (a # as) (c # cs) = (atom_match cf a c \<and> match_here cf as cs)"

fun search_rx :: "(char \<Rightarrow> char) \<Rightarrow> atom list \<Rightarrow> string \<Rightarrow> bool" where
  "search_rx cf as [] = match_here cf as []"
| "search_rx cf as (c # cs) = (match_here cf as (c # cs) \<or> search_rx cf as cs)"

definition RegExp_with :: "(char \<Rightarrow> char) \<Rightarrow> (string \<Rightarrow> regex option) \<Rightarrow> string \<Rightarrow> regex option" where
  "RegExp_with cf other p =
     (case compile_rx p of None \<Rightarrow> other p | Some as \<Rightarrow> Some (search_rx cf as))"

text \<open>
  What the specification calls a case-insensitive substring match: the needle, with its
  case folded, is a contiguous part of the text with its case folded.
\<close>

definition ci_substring :: "(char \<Rightarrow> char) \<Rightarrow> string \<Rightarrow> string \<Rightarrow> bool" where
  "ci_substring cf s x = sublist (map cf s) (map cf x)"

section \<open>Example data\<close>

text \<open>Two users with disjoint tasks; the second task of Ann is archived.\<close>

definition ann :: user_doc where
  "ann = \<lparr>user_id = ''u1'', name = ''Ann'', email = ''ann@x.com'', password = ''h1'',
          avatar = None, role = ''user'', isActive = True, lastLogin = None,
          user_createdAt = 1, user_updatedAt = 1\<rparr>"

definition bob :: user_doc where
  "bob = \<lparr>user_id = ''u2'', name = ''Bob'', email = ''bob@x.com'', password = ''h2'',
          avatar = None, role = ''user'', isActive = True, lastLogin = Some 5,
          user_createdAt = 2, user_updatedAt = 5\<rparr>"

definition write_spec :: task where
  "write_spec = \<lparr>task_id = ''t1'', title = ''Write spec'', description = None,
                 status = ''pending'', priority = ''medium'', category = None,
                 dueDate = Some 100, completedAt = None, tags = [''Docs''],
                 user = ''u1'', isArchived = False, createdAt = 10, updatedAt = 10\<rparr>"

definition old_notes :: task where
  "old_notes = \<lparr>task_id = ''t2'', title = ''Old notes'', description = Some ''the spec draft'',
                status = ''completed'', priority = ''low'', category = Some ''Work'',
                dueDate = None, completedAt = Some 50, tags = [],
                user = ''u1'', isArchived = True, createdAt = 20, updatedAt = 50\<rparr>"

definition pay_rent :: task where
  "pay_rent = \<lparr>task_id = ''t3'', title = ''Pay rent'', description = None,
               status = ''pending'', priority = ''high'', category = Some ''Home'',
               dueDate = Some 250, completedAt = None, tags = [''money''],
               user = ''u2'', isArchived = False, createdAt = 30, updatedAt = 30\<rparr>"

definition review_pr :: task where
  "review_pr = \<lparr>task_id = ''t4'', title = ''Review PR'', description = None,
                status = ''in-progress'', priority = ''high'', category = Some ''Work'',
                dueDate = Some 230, completedAt = None, tags = [],
                user = ''u1'', isArchived = False, createdAt = 40, updatedAt = 40\<rparr>"

definition example_db :: db where
  "example_db = \<lparr>users = [ann, bob], tasks = [write_spec, old_notes, pay_rent, review_pr]\<rparr>"

definition no_params :: list_request where
  "no_params = \<lparr>q_status = None, q_priority = None, q_category = None, q_search = None,
                q_sortBy = None, q_sortOrder = None, q_page = None, q_limit = None,
                q_includeArchived = None\<rparr>"

text \<open>A rank for the sort: the due date, with the tasks that have none first.\<close>

definition due_rank :: "string \<Rightarrow> task \<Rightarrow> int" where
  "due_rank field t = (case dueDate t of None \<Rightarrow> - 1 | Some x \<Rightarrow> x)"

text \<open>
  The parameters of the examples. The case folding is that of the ASCII letters. The
  rest of the engine is cut down to the patterns that anchor ordinary characters at the
  start of the string. The examples compute with modelled numbers only, so the
  parameters of the numbers hold arbitrary values.
\<close>

definition to_lower :: "char \<Rightarrow> char" where
  "to_lower c =
     (case map_of (zip ''ABCDEFGHIJKLMNOPQRSTUVWXYZ'' ''abcdefghijklmnopqrstuvwxyz'') c of
        None \<Rightarrow> c
      | Some l \<Rightarrow> l)"

definition caret_patterns :: "string \<Rightarrow> regex option" where
  "caret_patterns p =
     (case p of
        [] \<Rightarrow> None
      | c # s \<Rightarrow>
          if c = CHR ''^'' \<and> \<not> list_ex syntax_character s
          then Some (\<lambda>x. prefix (map to_lower s) (map to_lower x))
          else None)"

definition example_RegExp :: "string \<Rightarrow> regex option" where
  "example_RegExp = RegExp_with to_lower caret_patterns"

definition example_js :: js_runtime where
  "example_js =
     \<lparr>Number_other = (\<lambda>s. NaN), parseInt_other = (\<lambda>s. NaN),
      minus_other = (\<lambda>x y. NaN), times_other = (\<lambda>x y. NaN),
      ceil_divide_other = (\<lambda>n y. NaN),
      skip_other = (\<lambda>x. Inl MongoServerError), limit_other = (\<lambda>x. Inl MongoServerError)\<rparr>"

section \<open>Properties of the list query\<close>

lemmas example_defs = example_db_def ann_def bob_def write_spec_def old_notes_def pay_rent_def
  review_pr_def no_params_def due_rank_def

text \<open>
  What the filter document built by the list handler selects, key by key. An empty
  parameter is falsy and adds no key.
\<close>

lemma build_query_keys:
  "build_query R caller q =
     (case category_keys R q of Inl e \<Rightarrow> Inl e
      | Inr cat \<Rightarrow>
          (case search_keys R q of Inl e \<Rightarrow> Inl e
           | Inr srch \<Rightarrow> Inr (base_keys caller q @ status_keys q @ priority_keys q @ cat @ srch)))"
proof -
  have incl: "((case q_includeArchived q of None \<Rightarrow> JStr ''false'' | Some v \<Rightarrow> v) = JStr ''true'')
      \<longleftrightarrow> q_includeArchived q = Some (JStr ''true'')"
    by (simp split: option.split)
  show ?thesis
    unfolding build_query_def Let_def incl base_keys_def status_keys_def priority_keys_def
      category_keys_def search_keys_def new_RegExp_def
    by (simp split: option.split)
qed

lemma matches_append: "matches (a @ b) t \<longleftrightarrow> matches a t \<and> matches b t"
  by (simp add: matches_def)

lemma matches_base_keys:
  "matches (base_keys caller q) t \<longleftrightarrow>
     user t = caller \<and> (q_includeArchived q = Some (JStr ''true'') \<or> \<not> isArchived t)"
  by (auto simp: matches_def base_keys_def)

lemma matches_status_keys:
  "matches (status_keys q) t \<longleftrightarrow>
     (case q_status q of None \<Rightarrow> True | Some s \<Rightarrow> s = [] \<or> status t = s)"
  by (simp add: matches_def status_keys_def split: option.split)

lemma matches_priority_keys:
  "matches (priority_keys q) t \<longleftrightarrow>
     (case q_priority q of None \<Rightarrow> True | Some p \<Rightarrow> p = [] \<or> priority t = p)"
  by (simp add: matches_def priority_keys_def split: option.split)

lemma matches_category_keys:
  "category_keys R q = Inr cat \<Longrightarrow>
   matches cat t \<longleftrightarrow>
     (case q_category q of None \<Rightarrow> True
      | Some c \<Rightarrow> c = [] \<or> (\<exists>r x. R c = Some r \<and> category t = Some x \<and> r x))"
  by (auto simp: matches_def category_keys_def split: option.splits if_splits)

lemma matches_search_keys:
  "search_keys R q = Inr srch \<Longrightarrow>
   matches srch t \<longleftrightarrow>
     (case q_search q of None \<Rightarrow> True
      | Some s \<Rightarrow> s = [] \<or>
          (\<exists>r. R s = Some r \<and>
             (r (title t) \<or> (\<exists>x. description t = Some x \<and> r x) \<or> (\<exists>g\<in>set (tags t). r g))))"
  by (auto simp: matches_def search_keys_def list_ex_iff split: option.splits if_splits)

lemma matches_build_query:
  assumes "build_query R caller q = Inr query"
  shows "matches query t \<longleftrightarrow>
     user t = caller \<and>
     (q_includeArchived q = Some (JStr ''true'') \<or> \<not> isArchived t) \<and>
     (case q_status q of None \<Rightarrow> True | Some s \<Rightarrow> s = [] \<or> status t = s) \<and>
     (case q_priority q of None \<Rightarrow> True | Some p \<Rightarrow> p = [] \<or> priority t = p) \<and>
     (case q_category q of None \<Rightarrow> True
      | Some c \<Rightarrow> c = [] \<or> (\<exists>r x. R c = Some r \<and> category t = Some x \<and> r x)) \<and>
     (case q_search q of None \<Rightarrow> True
      | Some s \<Rightarrow> s = [] \<or>
          (\<exists>r. R s = Some r \<and>
             (r (title t) \<or> (\<exists>x. description t = Some x \<and> r x) \<or> (\<exists>g\<in>set (tags t). r g))))"
proof -
  from assms obtain cat srch where
    cat: "category_keys R q = Inr cat" and srch: "search_keys R q = Inr srch" and
    query: "query = base_keys caller q @ status_keys q @ priority_keys q @ cat @ srch"
    by (auto simp: build_query_keys split: sum.splits)
  show ?thesis
    unfolding query matches_append matches_base_keys matches_status_keys matches_priority_keys
      matches_category_keys[OF cat] matches_search_keys[OF srch]
    by simp
qed

lemma set_sort_docs: "set (sort_docs key field dir ts) = set ts"
  by (simp add: sort_docs_def)


lemma set_cursor_skip: "cursor_skip js x ts = Inr rest \<Longrightarrow> set rest \<subseteq> set ts"
  by (auto simp: cursor_skip_def split: sum.splits dest: in_set_dropD)

lemma set_cursor_limit: "cursor_limit js x ts = Inr rest \<Longrightarrow> set rest \<subseteq> set ts"
  by (auto simp: cursor_limit_def split: sum.splits if_splits dest: in_set_takeD)

lemma list_tasks_found:
  assumes "list_tasks R key js d caller q = Send r" and "payload r = TaskPage found pg"
  shows "\<exists>query. build_query R caller q = Inr query \<and>
           set (map doc found) \<subseteq> set (find_docs query (tasks d))"
proof -
  from assms(1) obtain query where bq: "build_query R caller q = Inr query"
    by (auto simp: list_tasks_def Let_def split: sum.splits)
  define ordered where "ordered = sort_docs key (case q_sortBy q of None \<Rightarrow> ''createdAt'' | Some f \<Rightarrow> f)
     (if (case q_sortOrder q of None \<Rightarrow> ''desc'' | Some v \<Rightarrow> v) = ''asc'' then 1 else - 1)
     (find_docs query (tasks d))"
  from assms(1) bq obtain rest where
    sk: "cursor_skip js (skip_value js q) ordered = Inr rest"
    by (auto simp: list_tasks_def Let_def ordered_def split: sum.splits)
  from assms(1) bq sk obtain selected where
    lm: "cursor_limit js (parseInt_of js 10 (q_limit q)) rest = Inr selected"
    by (auto simp: list_tasks_def Let_def ordered_def split: sum.splits)
  from assms bq sk lm have "found = map (populate (users d)) selected"
    by (auto simp: list_tasks_def Let_def ordered_def split: sum.splits)
  then have "map doc found = selected"
    by (simp add: populate_def comp_def)
  moreover have "set selected \<subseteq> set (find_docs query (tasks d))"
    using set_cursor_limit[OF lm] set_cursor_skip[OF sk] by (auto simp: ordered_def set_sort_docs)
  ultimately show ?thesis
    using bq by fastforce
qed

text \<open>
  C1. Whatever the filter, sort and pagination parameters of a list request are, and
  whatever the regular-expression engine, the sort order of the store and the numbers
  of the runtime do, every task of the returned page is a stored task whose owner is
  the caller: no task of another user is returned.
\<close>

theorem list_tasks_owner_scoped:
  assumes "list_tasks R key js d caller q = Send r"
    and "payload r = TaskPage found pg"
    and "v \<in> set found"
  shows "user (doc v) = caller \<and> doc v \<in> set (tasks d)"
proof -
  from list_tasks_found[OF assms(1,2)] obtain query where
    bq: "build_query R caller q = Inr query" and
    sub: "set (map doc found) \<subseteq> set (find_docs query (tasks d))"
    by blast
  from assms(3) sub have "doc v \<in> set (find_docs query (tasks d))"
    by auto
  then have "matches query (doc v)" and "doc v \<in> set (tasks d)"
    by (simp_all add: find_docs_def)
  with matches_build_query[OF bq] show ?thesis
    by simp
qed






lemma example_page:
  "list_tasks example_RegExp due_rank example_js example_db ''u1'' no_params =
     Send \<lparr>code = 200, success = True, message = None,
           payload = TaskPage [populate [ann, bob] review_pr, populate [ann, bob] write_spec]
             \<lparr>current = Fin 1, total = Fin 1, count = 2, totalRecords = 2\<rparr>\<rparr>"
  by (simp add: list_tasks_def build_query_def find_docs_def matches_def sort_docs_def
        skip_value_def ToNumber_def parseInt_of_def js_minus_def js_times_def is_int_def
        fl_int_def fl_nat_def cursor_skip_def cursor_limit_def js_ceil_divide_def
        countDocuments_def example_defs)

theorem list_tasks_owner_scoped_witness:
  "list_tasks example_RegExp due_rank example_js example_db ''u1'' no_params =
     Send \<lparr>code = 200, success = True, message = None,
           payload = TaskPage [populate [ann, bob] review_pr, populate [ann, bob] write_spec]
             \<lparr>current = Fin 1, total = Fin 1, count = 2, totalRecords = 2\<rparr>\<rparr> \<and>
   user (doc (populate [ann, bob] write_spec)) = ''u1'' \<and>
   doc (populate [ann, bob] write_spec) \<in> set (tasks example_db)"
proof -
  from list_tasks_owner_scoped[OF example_page, of "[populate [ann, bob] review_pr, populate [ann, bob] write_spec]" _
      "populate [ann, bob] write_spec"]
  show ?thesis using example_page by simp
qed

text \<open>
  C10. The tasks that a list request selects are those that pass the filter with their
  archived flag cleared and that either are not archived or come with an includeArchived
  parameter that is exactly the string \<open>true\<close>. With any other value of the parameter
  (another string, a boolean, a number) or without it, only tasks that are not archived are
  selected.
\<close>

theorem includeArchived_exactly_true:
  assumes "build_query R caller q = Inr query"
  shows "find_docs query coll =
           filter (\<lambda>t. (q_includeArchived q = Some (JStr ''true'') \<or> \<not> isArchived t) \<and>
                        matches query (t\<lparr>isArchived := False\<rparr>)) coll"
  unfolding find_docs_def
  by (rule filter_cong) (auto simp: matches_build_query[OF assms] cong: option.case_cong)

theorem includeArchived_exactly_true_witness:
  "build_query example_RegExp ''u1'' (no_params\<lparr>q_includeArchived := Some (JStr ''TRUE'')\<rparr>) =
     Inr [UserEq ''u1'', ArchivedEq False] \<and>
   find_docs [UserEq ''u1'', ArchivedEq False] (tasks example_db) = [write_spec, review_pr]"
proof -
  have bq: "build_query example_RegExp ''u1'' (no_params\<lparr>q_includeArchived := Some (JStr ''TRUE'')\<rparr>) =
     Inr [UserEq ''u1'', ArchivedEq False]"
    by (simp add: build_query_def no_params_def)
  from includeArchived_exactly_true[OF bq, of "tasks example_db"]
  show ?thesis using bq
    by (simp add: matches_def example_defs)
qed

section \<open>Pagination\<close>

















section \<open>The search clause\<close>

lemma match_here_lit:
  "match_here cf (map Lit s) x \<longleftrightarrow> prefix (map cf s) (map cf x)"
proof (induction s arbitrary: x)
  case Nil
  then show ?case by simp
next
  case (Cons c s)
  then show ?case by (cases x) auto
qed

lemma search_rx_lit: "search_rx cf (map Lit s) x \<longleftrightarrow> ci_substring cf s x"
proof (induction x)
  case Nil
  then show ?case by (cases s) (simp_all add: ci_substring_def)
next
  case (Cons c x)
  then show ?case
    by (simp only: search_rx.simps match_here_lit ci_substring_def list.map sublist_Cons_right)
qed

lemma compile_rx_plain:
  "\<forall>c\<in>set s. \<not> syntax_character c \<Longrightarrow> compile_rx s = Some (map Lit s)"
  by (induction s) (auto simp: syntax_character_def)

lemma RegExp_with_plain:
  "\<forall>c\<in>set s. \<not> syntax_character c \<Longrightarrow> RegExp_with cf other s = Some (ci_substring cf s)"
  by (auto simp: RegExp_with_def compile_rx_plain search_rx_lit)

text \<open>
  C7, as the code has it. The search parameter is compiled as a regular expression, so
  the clause is a substring test only for a parameter without syntax characters. For
  such a parameter \<open>s\<close>, not empty, whatever the engine does with other patterns, a task
  is selected if and only if \<open>s\<close> is a case-insensitive substring of its title, of its
  description or of one of its tags, and the task passes the owner, archived, status,
  priority and category filters; the category is any pattern that the engine compiles.
\<close>

theorem search_clause_plain:
  assumes "q_search q = Some s" and "s \<noteq> []"
    and "\<forall>c\<in>set s. \<not> syntax_character c"
    and "build_query (RegExp_with cf other) caller q = Inr query"
  shows "matches query t \<longleftrightarrow>
     (ci_substring cf s (title t) \<or>
      (\<exists>x. description t = Some x \<and> ci_substring cf s x) \<or>
      (\<exists>g\<in>set (tags t). ci_substring cf s g)) \<and>
     user t = caller \<and>
     (q_includeArchived q = Some (JStr ''true'') \<or> \<not> isArchived t) \<and>
     (case q_status q of None \<Rightarrow> True | Some v \<Rightarrow> v = [] \<or> status t = v) \<and>
     (case q_priority q of None \<Rightarrow> True | Some v \<Rightarrow> v = [] \<or> priority t = v) \<and>
     (case q_category q of None \<Rightarrow> True
      | Some c \<Rightarrow> c = [] \<or>
          (\<exists>r x. RegExp_with cf other c = Some r \<and> category t = Some x \<and> r x))"
  using assms(1,2) RegExp_with_plain[OF assms(3), of cf other]
  by (auto simp: matches_build_query[OF assms(4)])

theorem search_clause_plain_witness:
  "\<not> list_ex syntax_character ''SPEC'' \<and>
   build_query example_RegExp ''u1''
     (no_params\<lparr>q_search := Some ''SPEC'', q_category := Some ''^wo'',
                 q_includeArchived := Some (JStr ''true'')\<rparr>) =
     Inr [UserEq ''u1'', ArchivedIn [True, False],
          CategoryRe (\<lambda>x. prefix (map to_lower ''wo'') (map to_lower x)),
          Or [TitleRe (ci_substring to_lower ''SPEC''), DescriptionRe (ci_substring to_lower ''SPEC''),
              TagsInRe [ci_substring to_lower ''SPEC'']]] \<and>
   matches [UserEq ''u1'', ArchivedIn [True, False],
          CategoryRe (\<lambda>x. prefix (map to_lower ''wo'') (map to_lower x)),
          Or [TitleRe (ci_substring to_lower ''SPEC''), DescriptionRe (ci_substring to_lower ''SPEC''),
              TagsInRe [ci_substring to_lower ''SPEC'']]] old_notes \<and>
   ci_substring to_lower ''SPEC'' ''the spec draft''"
proof -
  let ?q = "no_params\<lparr>q_search := Some ''SPEC'', q_category := Some ''^wo'',
                 q_includeArchived := Some (JStr ''true'')\<rparr>"
  have h1: "q_search ?q = Some ''SPEC''" and h2: "''SPEC'' \<noteq> []" by simp_all
  have h3: "\<forall>c\<in>set ''SPEC''. \<not> syntax_character c"
    by (simp add: syntax_character_def)
  have cat: "RegExp_with to_lower caret_patterns ''^wo'' =
               Some (\<lambda>x. prefix (map to_lower ''wo'') (map to_lower x))"
    by (simp add: RegExp_with_def caret_patterns_def syntax_character_def)
  have h4: "build_query (RegExp_with to_lower caret_patterns) ''u1'' ?q =
     Inr [UserEq ''u1'', ArchivedIn [True, False],
          CategoryRe (\<lambda>x. prefix (map to_lower ''wo'') (map to_lower x)),
          Or [TitleRe (ci_substring to_lower ''SPEC''), DescriptionRe (ci_substring to_lower ''SPEC''),
              TagsInRe [ci_substring to_lower ''SPEC'']]]"
    by (simp add: build_query_def no_params_def new_RegExp_def cat RegExp_with_plain[OF h3])
  have sub: "ci_substring to_lower ''SPEC'' ''the spec draft''"
    by (simp add: ci_substring_def to_lower_def sublist_code prefix_code)
  have pre: "prefix (map to_lower ''wo'') (map to_lower ''Work'')"
    by (simp add: to_lower_def prefix_code)
  from search_clause_plain[OF h1 h2 h3 h4, of old_notes]
  show ?thesis using h3 h4 sub pre cat
    by (simp add: old_notes_def no_params_def list_ex_iff example_RegExp_def)
qed

text \<open>
  The claim as stated fails for a parameter with a syntax character: the search for a
  dot selects a task that has no dot in its title, its description or its tags.
\<close>

theorem search_is_regex_counterexample:
  "build_query example_RegExp ''u1'' (no_params\<lparr>q_search := Some ''.''\<rparr>) =
     Inr [UserEq ''u1'', ArchivedEq False,
          Or [TitleRe (search_rx to_lower [AnyChar]), DescriptionRe (search_rx to_lower [AnyChar]),
              TagsInRe [search_rx to_lower [AnyChar]]]] \<and>
   matches [UserEq ''u1'', ArchivedEq False,
          Or [TitleRe (search_rx to_lower [AnyChar]), DescriptionRe (search_rx to_lower [AnyChar]),
              TagsInRe [search_rx to_lower [AnyChar]]]] review_pr \<and>
   \<not> (ci_substring to_lower ''.'' (title review_pr) \<or>
       (\<exists>x. description review_pr = Some x \<and> ci_substring to_lower ''.'' x) \<or>
       (\<exists>g\<in>set (tags review_pr). ci_substring to_lower ''.'' g))"
  by (simp add: build_query_def no_params_def new_RegExp_def example_RegExp_def RegExp_with_def
        syntax_character_def matches_def review_pr_def ci_substring_def to_lower_def
        sublist_code prefix_code)

section \<open>Properties of the single-record operations\<close>

lemma findOne_None:
  "findOne [IdEq i, UserEq caller] coll = None \<longleftrightarrow>
     \<not> (\<exists>t\<in>set coll. task_id t = i \<and> user t = caller)"
  by (auto simp: findOne_def matches_def find_None_iff)

text \<open>
  C2. When no stored task has both the given identifier and the caller as its owner, be it
  that no task has the identifier or that the task belongs to another user, each of the
  four operations by identifier (get, update, delete, archive toggle) sends the same
  response, 404 with success false and the message \<open>Task not found\<close>, and changes
  nothing. The update handler is the function that runs after the validation middleware.
\<close>

theorem not_owned_is_not_found:
  assumes "\<not> (\<exists>t\<in>set (tasks d). task_id t = i \<and> user t = caller)"
  shows "get_task d caller i = Send not_found \<and>
         put_task d caller i body now = (Send not_found, d) \<and>
         delete_task d caller i = (Send not_found, d) \<and>
         patch_archive d caller i now = (Send not_found, d) \<and>
         code not_found = 404 \<and> success not_found = False"
proof -
  from assms have "findOne [IdEq i, UserEq caller] (tasks d) = None"
    by (simp add: findOne_None)
  then show ?thesis
    by (simp add: get_task_def put_task_def delete_task_def patch_archive_def not_found_def)
qed

theorem not_owned_is_not_found_witness:
  "\<not> (\<exists>t\<in>set (tasks example_db). task_id t = ''t3'' \<and> user t = ''u1'') \<and>
   \<not> (\<exists>t\<in>set (tasks example_db). task_id t = ''t9'' \<and> user t = ''u1'') \<and>
   get_task example_db ''u1'' ''t3'' = get_task example_db ''u1'' ''t9'' \<and>
   put_task example_db ''u1'' ''t3'' [Plain (Title ''mine'')] 900 = (Send not_found, example_db) \<and>
   put_task example_db ''u1'' ''t9'' [Plain (Title ''mine'')] 900 = (Send not_found, example_db) \<and>
   delete_task example_db ''u1'' ''t3'' = delete_task example_db ''u1'' ''t9'' \<and>
   patch_archive example_db ''u1'' ''t3'' 900 = patch_archive example_db ''u1'' ''t9'' 900"
proof -
  have foreign: "\<not> (\<exists>t\<in>set (tasks example_db). task_id t = ''t3'' \<and> user t = ''u1'')"
    by (simp add: example_defs)
  have absent: "\<not> (\<exists>t\<in>set (tasks example_db). task_id t = ''t9'' \<and> user t = ''u1'')"
    by (simp add: example_defs)
  from not_owned_is_not_found[OF foreign, of "[Plain (Title ''mine'')]" 900]
       not_owned_is_not_found[OF absent, of "[Plain (Title ''mine'')]" 900]
  show ?thesis using foreign absent by simp
qed







section \<open>The owner reference under updates\<close>

text \<open>
  C3. The owner of a task should never change after creation, and both update handlers
  delete the key \<open>user\<close> of the payload for that purpose. The deletion removes the
  top-level key only: a payload that assigns the owner through the operator \<open>$set\<close>
  has no such key, reaches the store as it is, and changes the stored owner. Here Ann
  hands her task \<open>t1\<close> over to Bob, by the single update and by the bulk update.
\<close>

theorem set_operator_changes_owner:
  "fst (put_task example_db ''u1'' ''t1'' [SetOp [User ''u2'']] 900) =
     Send \<lparr>code = 200, success = True, message = Some ''Task updated successfully'',
           payload = TaskView (populate [ann, bob] (write_spec\<lparr>user := ''u2'', updatedAt := 900\<rparr>))\<rparr> \<and>
   tasks (snd (put_task example_db ''u1'' ''t1'' [SetOp [User ''u2'']] 900)) =
     [write_spec\<lparr>user := ''u2'', updatedAt := 900\<rparr>, old_notes, pay_rent, review_pr] \<and>
   fst (patch_bulk example_db ''u1''
         \<lparr>taskIds = Some (JArr [''t1'', ''t3'']), updates = Some [SetOp [User ''u2'']]\<rparr> 900) =
     Send \<lparr>code = 200, success = True, message = Some ''1 tasks updated successfully'',
           payload = Counts (Some 1) (Some 1)\<rparr> \<and>
   tasks (snd (patch_bulk example_db ''u1''
         \<lparr>taskIds = Some (JArr [''t1'', ''t3'']), updates = Some [SetOp [User ''u2'']]\<rparr> 900)) =
     [write_spec\<lparr>user := ''u2'', updatedAt := 900\<rparr>, old_notes, pay_rent, review_pr]"
  by (simp add: put_task_def patch_bulk_def findOne_def matches_def delete_key_def
        findByIdAndUpdate_def apply_update_def operator_fields_def top_level_fields_def
        updateMany_def populate_def show_count_def digit_def example_defs)

theorem set_operator_changes_owner_witness:
  "map user (tasks (snd (put_task example_db ''u1'' ''t1'' [SetOp [User ''u2'']] 900))) =
     [''u2'', ''u1'', ''u2'', ''u1''] \<and>
   map user (tasks (snd (patch_bulk example_db ''u1''
         \<lparr>taskIds = Some (JArr [''t1'', ''t3'']), updates = Some [SetOp [User ''u2'']]\<rparr> 900))) =
     [''u2'', ''u1'', ''u2'', ''u1''] \<and>
   map user (tasks example_db) = [''u1'', ''u1'', ''u2'', ''u1'']"
  using set_operator_changes_owner
  by (simp add: example_defs)

text \<open>A payload without operators leaves the owner as it is.\<close>

lemma set_field_keeps_owner: "path f \<noteq> ''user'' \<Longrightarrow> user (set_field f t) = user t"
  by (cases f) simp_all

lemma fold_set_field_keeps_owner:
  "\<forall>f\<in>set fs. path f \<noteq> ''user'' \<Longrightarrow> user (fold set_field fs t) = user t"
  by (induction fs arbitrary: t) (simp_all add: set_field_keeps_owner)

lemma plain_update_keeps_owner:
  assumes "\<forall>e\<in>set body. \<exists>f. e = Plain f"
  shows "user (apply_update (delete_key ''user'' body) now t) = user t"
proof -
  from assms have "operator_fields (delete_key ''user'' body) = []"
    by (induction body) (auto simp: operator_fields_def delete_key_def)
  moreover have "\<forall>f\<in>set (top_level_fields (delete_key ''user'' body)). path f \<noteq> ''user''"
    by (auto simp: top_level_fields_def delete_key_def split: update_entry.splits)
  ultimately show ?thesis
    by (simp add: apply_update_def fold_set_field_keeps_owner)
qed

section \<open>Properties of the bulk update\<close>

text \<open>
  The request is refused with 400 exactly when the identifier list is not a non-empty
  array or the payload, as supplied, is absent or has no key; then the store is left as
  it is.
\<close>

lemma patch_bulk_rejects:
  "((\<exists>r. fst (patch_bulk d caller body now) = Send r \<and> code r = 400) \<longleftrightarrow>
      \<not> (\<exists>ids. taskIds body = Some (JArr ids) \<and> ids \<noteq> []) \<or>
      updates body = None \<or> updates body = Some []) \<and>
   (\<not> (\<exists>ids. taskIds body = Some (JArr ids) \<and> ids \<noteq> []) \<or>
      updates body = None \<or> updates body = Some [] \<longrightarrow>
      snd (patch_bulk d caller body now) = d)"
proof -
  have ids: "(falsy v \<or> \<not> isArray v \<or> length (elements v) = 0) \<longleftrightarrow>
        \<not> (\<exists>ids. v = Some (JArr ids) \<and> ids \<noteq> [])" for v
  proof (cases v)
    case None
    then show ?thesis by simp
  next
    case (Some j)
    then show ?thesis by (cases j) simp_all
  qed
  show ?thesis
  proof (cases "\<exists>ids. taskIds body = Some (JArr ids) \<and> ids \<noteq> []")
    case False
    with ids[of "taskIds body"]
    have cond: "falsy (taskIds body) \<or> \<not> isArray (taskIds body) \<or> length (elements (taskIds body)) = 0"
      by blast
    have "patch_bulk d caller body now =
            (Send \<lparr>code = 400, success = False, message = Some ''Task IDs are required'',
                   payload = NoData\<rparr>, d)"
      by (simp only: patch_bulk_def cond if_True)
    with False show ?thesis by simp
  next
    case True
    then obtain ids where t: "taskIds body = Some (JArr ids)" "ids \<noteq> []"
      by blast
    show ?thesis
    proof (cases "updates body")
      case None
      with t show ?thesis by (simp add: patch_bulk_def)
    next
      case (Some upd)
      with t show ?thesis
        by (cases "upd = []") (simp_all add: patch_bulk_def Let_def split: prod.splits)
    qed
  qed
qed

text \<open>
  A payload without operators never changes an owner, and a task outside the
  intersection of the identifier list with the tasks of the caller stays as it is.
\<close>

lemma patch_bulk_plain_payload:
  assumes "\<forall>e\<in>set upd. \<exists>f. e = Plain f" and "updates body = Some upd"
  shows "map user (tasks (snd (patch_bulk d caller body now))) = map user (tasks d)"
    and "length (tasks (snd (patch_bulk d caller body now))) = length (tasks d)"
    and "k < length (tasks d) \<Longrightarrow>
         \<not> (task_id (tasks d ! k) \<in> set (elements (taskIds body)) \<and> user (tasks d ! k) = caller) \<Longrightarrow>
         tasks (snd (patch_bulk d caller body now)) ! k = tasks d ! k"
proof -
  note keeps = plain_update_keeps_owner[OF assms(1)]
  show "map user (tasks (snd (patch_bulk d caller body now))) = map user (tasks d)"
    using keeps assms(2)
    by (simp add: patch_bulk_def updateMany_def Let_def comp_def cong: map_cong)
  show "length (tasks (snd (patch_bulk d caller body now))) = length (tasks d)"
    using assms(2) by (simp add: patch_bulk_def updateMany_def Let_def)
  show "tasks (snd (patch_bulk d caller body now)) ! k = tasks d ! k"
    if "k < length (tasks d)"
      and "\<not> (task_id (tasks d ! k) \<in> set (elements (taskIds body)) \<and> user (tasks d ! k) = caller)"
    using that assms(2)
    by (auto simp: patch_bulk_def updateMany_def matches_def Let_def)
qed



text \<open>
  With a payload that keeps a key after the deletion, the counts are those of the tasks
  of the caller among the identifiers; the update timestamp makes every matched task a
  modified one, here also the task \<open>t1\<close>, whose status was pending already, and the
  value of a top-level key wins over the value given to the same field under \<open>$set\<close>.
\<close>

lemma patch_bulk_example:
  "patch_bulk example_db ''u1''
     \<lparr>taskIds = Some (JArr [''t1'', ''t3'', ''t4'']),
      updates = Some [Plain (Status ''pending''), Plain (User ''u2''), SetOp [Status ''completed'']]\<rparr> 900 =
     (Send \<lparr>code = 200, success = True, message = Some ''2 tasks updated successfully'',
            payload = Counts (Some 2) (Some 2)\<rparr>,
      example_db\<lparr>tasks := [write_spec\<lparr>status := ''pending'', updatedAt := 900\<rparr>, old_notes, pay_rent,
                            review_pr\<lparr>status := ''pending'', updatedAt := 900\<rparr>]\<rparr>)"
  by (simp add: patch_bulk_def updateMany_def matches_def delete_key_def apply_update_def
        operator_fields_def top_level_fields_def show_count_def digit_def example_defs)

section \<open>Properties of the statistics\<close>

text \<open>
  C8. The overview reports as overdue the number of tasks of the caller that are not
  archived, whose due date is strictly before the instant \<open>now\<close> and whose status is
  neither completed nor cancelled; and as due today the number of tasks of the caller
  that are not archived, whose due date is at or after the start of the local day and
  strictly before the start of the next one, and whose status is neither completed nor
  cancelled.
\<close>

theorem stats_overview_counts:
  "get_stats_overview getTaskStats Date_local d caller now today =
     Send \<lparr>code = 200, success = True, message = None,
           payload = Overview (getTaskStats (tasks d) caller)
             (length (filter (\<lambda>t. user t = caller \<and> \<not> isArchived t \<and>
                          (\<exists>due. dueDate t = Some due \<and> due < now) \<and>
                          status t \<noteq> ''completed'' \<and> status t \<noteq> ''cancelled'') (tasks d)))
             (length (filter (\<lambda>t. user t = caller \<and> \<not> isArchived t \<and>
                          (\<exists>due. dueDate t = Some due \<and>
                                 Date_local today 0 \<le> due \<and> due < Date_local today 1) \<and>
                          status t \<noteq> ''completed'' \<and> status t \<noteq> ''cancelled'') (tasks d)))\<rparr>"
proof -
  have overdue: "matches [UserEq caller, DueDateLt now, StatusNin [''completed'', ''cancelled''],
                   ArchivedEq False] =
        (\<lambda>t. user t = caller \<and> \<not> isArchived t \<and> (\<exists>due. dueDate t = Some due \<and> due < now) \<and>
        status t \<noteq> ''completed'' \<and> status t \<noteq> ''cancelled'')"
    by (rule ext) (auto simp: matches_def split: option.splits)
  have today: "matches [UserEq caller, DueDateRange a b, StatusNin [''completed'', ''cancelled''],
                   ArchivedEq False] =
        (\<lambda>t. user t = caller \<and> \<not> isArchived t \<and> (\<exists>due. dueDate t = Some due \<and> a \<le> due \<and> due < b) \<and>
        status t \<noteq> ''completed'' \<and> status t \<noteq> ''cancelled'')" for a b
    by (rule ext) (auto simp: matches_def split: option.splits)
  show ?thesis
    by (simp add: get_stats_overview_def Let_def countDocuments_def find_docs_def overdue today)
qed

theorem stats_overview_counts_witness:
  "get_stats_overview (\<lambda>ts u. []) (\<lambda>today k. (today div 100 + k) * 100) example_db ''u1'' 240 240 =
     Send \<lparr>code = 200, success = True, message = None, payload = Overview [] 2 1\<rparr>"
  using stats_overview_counts[of "\<lambda>ts u. []" "\<lambda>today k. (today div 100 + k) * 100" example_db "''u1''" 240 240]
  by (simp add: example_defs)

section \<open>Properties of the account deactivation\<close>

lemma find_update_one:
  "List.find P xs = Some x \<Longrightarrow> P (f x) \<Longrightarrow> List.find P (update_one P f xs) = Some (f x)"
  by (induction xs) (auto split: if_splits)

lemma map_update_one:
  "(\<And>x. g (f x) = g x) \<Longrightarrow> map g (update_one P f xs) = map g xs"
  by (induction xs) auto

lemma nth_update_one:
  "k < length xs \<Longrightarrow> \<not> P (xs ! k) \<Longrightarrow> update_one P f xs ! k = xs ! k"
proof (induction xs arbitrary: k)
  case Nil
  then show ?case by simp
next
  case (Cons x xs)
  then show ?case by (cases k) auto
qed

text \<open>
  C9, as the code has it. Deleting the account sets the active flag of the caller's
  user record to false and changes no other field of it except the update timestamp,
  which the mapper maintains; no user record is removed or added, the records of the
  other users stay as they are, and the tasks are not touched.
\<close>

theorem delete_account_soft:
  assumes "List.find (\<lambda>x. user_id x = caller) (users d) = Some u"
  shows "List.find (\<lambda>x. user_id x = caller) (users (snd (delete_account d caller now))) =
           Some (u\<lparr>isActive := False, user_updatedAt := now\<rparr>) \<and>
         map user_id (users (snd (delete_account d caller now))) = map user_id (users d) \<and>
         (\<forall>k < length (users d). user_id (users d ! k) \<noteq> caller \<longrightarrow>
              users (snd (delete_account d caller now)) ! k = users d ! k) \<and>
         tasks (snd (delete_account d caller now)) = tasks d"
proof -
  from assms have "user_id u = caller"
    by (auto simp: find_Some_iff)
  then have "user_id (u\<lparr>isActive := False, user_updatedAt := now\<rparr>) = caller"
    by simp
  from find_update_one[of "\<lambda>x. user_id x = caller" "users d" u
         "\<lambda>x. x\<lparr>isActive := False, user_updatedAt := now\<rparr>", OF assms this]
  show ?thesis
    by (simp add: delete_account_def map_update_one nth_update_one)
qed

theorem delete_account_soft_witness:
  "List.find (\<lambda>x. user_id x = ''u1'') (users example_db) = Some ann \<and>
   users (snd (delete_account example_db ''u1'' 900)) =
     [ann\<lparr>isActive := False, user_updatedAt := 900\<rparr>, bob] \<and>
   tasks (snd (delete_account example_db ''u1'' 900)) = tasks example_db"
proof -
  have h: "List.find (\<lambda>x. user_id x = ''u1'') (users example_db) = Some ann"
    by (simp add: example_defs)
  from delete_account_soft[OF h, of 900] h show ?thesis
    by (simp add: delete_account_def example_defs)
qed

text \<open>
  The claim as stated fails on the update timestamp: the record of Ann was last updated
  at the instant 1, and after the deactivation at the instant 900 it holds 900 there.
\<close>

theorem delete_account_timestamp_counterexample:
  "List.find (\<lambda>x. user_id x = ''u1'') (users example_db) = Some ann \<and>
   List.find (\<lambda>x. user_id x = ''u1'') (users (snd (delete_account example_db ''u1'' 900))) =
     Some (ann\<lparr>isActive := False, user_updatedAt := 900\<rparr>) \<and>
   user_updatedAt ann = 1 \<and>
   ann\<lparr>isActive := False, user_updatedAt := 900\<rparr> \<noteq> ann\<lparr>isActive := False\<rparr>"
  by (simp add: delete_account_def example_defs)


end
